theory Spec2Isabelle
  imports Complex_Main
begin

section \<open>Python values, numbers and errors\<close>

text \<open>
  The widget toolkit is Python: arguments are dynamically typed, integers are unbounded
  and a \<^verbatim>\<open>NumberType\<close> is an \<^verbatim>\<open>int\<close> or a \<^verbatim>\<open>float\<close>. A finite float is
  represented by the rational it denotes (rounding is not modelled); the two infinities
  and NaN are kept apart because \<^verbatim>\<open>int()\<close> raises on them.
\<close>

datatype number = PyInt int | PyFloat rat | PyInf bool | PyNaN

datatype error =
    AssertionError string
  | ValueError string
  | OverflowError string
  | AttributeError string

text \<open>\<^verbatim>\<open>int(x)\<close>: the identity on integers, truncation toward zero on finite floats.\<close>

definition trunc :: "rat \<Rightarrow> int" where
  "trunc r = (if 0 \<le> r then \<lfloor>r\<rfloor> else \<lceil>r\<rceil>)"

fun py_int :: "number \<Rightarrow> error + int" where
  "py_int (PyInt i) = Inr i"
| "py_int (PyFloat r) = Inr (trunc r)"
| "py_int (PyInf s) = Inl (OverflowError ''cannot convert float infinity to integer'')"
| "py_int PyNaN = Inl (ValueError ''cannot convert float NaN to integer'')"

text \<open>The comparisons \<^verbatim>\<open>x > 0\<close>, \<^verbatim>\<open>x >= 0\<close> and \<^verbatim>\<open>x == 1\<close>; \<open>PyInf True\<close> is \<open>+inf\<close>.\<close>

fun gt_zero :: "number \<Rightarrow> bool" where
  "gt_zero (PyInt i) = (0 < i)"
| "gt_zero (PyFloat r) = (0 < r)"
| "gt_zero (PyInf s) = s"
| "gt_zero PyNaN = False"

fun ge_zero :: "number \<Rightarrow> bool" where
  "ge_zero (PyInt i) = (0 \<le> i)"
| "ge_zero (PyFloat r) = (0 \<le> r)"
| "ge_zero (PyInf s) = s"
| "ge_zero PyNaN = False"

fun eq_one :: "number \<Rightarrow> bool" where
  "eq_one (PyInt i) = (i = 1)"
| "eq_one (PyFloat r) = (r = 1)"
| "eq_one (PyInf s) = False"
| "eq_one PyNaN = False"

text \<open>
  Values passed to callbacks and hashed by the render cache. \<open>VRef\<close> is a reference to
  an object (a widget or a menu), named by its identifier.
\<close>

datatype pyval = VNone | VBool bool | VInt int | VStr string | VRef string

text \<open>A callable is opaque user code; it is identified by a name.\<close>

datatype callable = Callable string

text \<open>
  What a method does to its collaborators is recorded as a trace: callbacks invoked with
  their positional and keyword arguments, sounds played, warnings issued, and the calls
  \<^verbatim>\<open>menu.select_widget(widget)\<close> and \<^verbatim>\<open>menu._update_selection_if_hidden()\<close>
  of the owning Menu.
\<close>

datatype effect =
    Call callable "pyval list" "(string \<times> pyval) list"
  | PlayOpenMenu
  | PlayClickMouse
  | Warn string
  | MenuSelectWidget string string
  | MenuUpdateSelectionIfHidden string

section \<open>Events\<close>

text \<open>
  A pygame event has a type and the attributes of that type: \<^verbatim>\<open>key\<close> for
  \<^verbatim>\<open>KEYDOWN\<close>, \<^verbatim>\<open>button\<close> for \<^verbatim>\<open>JOYBUTTONDOWN\<close>, \<^verbatim>\<open>pos\<close> for
  \<^verbatim>\<open>MOUSEBUTTONUP\<close>, the normalized \<^verbatim>\<open>x\<close>, \<^verbatim>\<open>y\<close> for \<^verbatim>\<open>FINGERUP\<close>.
\<close>

datatype event =
    KEYDOWN int
  | JOYBUTTONDOWN int
  | MOUSEBUTTONUP int int
  | FINGERUP rat rat
  | OtherEvent nat

section \<open>The Menu as the widget sees it\<close>

record menu =
  menu_id :: string
  window_size :: "int \<times> int"
  widgets_surface_need_update :: bool

section \<open>Widget state\<close>

text \<open>
  The attributes of \<^verbatim>\<open>Widget\<close> (and of \<^verbatim>\<open>Button\<close>, its concrete subclass in the
  sources). A private attribute \<^verbatim>\<open>_x\<close> of the class is the field \<open>w_x\<close>; the public
  attributes \<^verbatim>\<open>active\<close>, \<^verbatim>\<open>is_selectable\<close>, \<^verbatim>\<open>lock_position\<close> and \<^verbatim>\<open>readonly\<close>
  keep their names. \<open>w_class\<close> is \<^verbatim>\<open>self.__class__.__name__\<close>. A \<^verbatim>\<open>pygame.Rect\<close> is
  \<open>(x, y, width, height)\<close>; a color is a tuple of integers.
\<close>

record widget =
  w_class :: string
  w_id :: string
  w_title :: string
  w_args :: "pyval list"
  w_kwargs :: "(string \<times> pyval) list"
  w_on_change :: "callable option"
  w_on_return :: "callable option"
  w_on_select :: "callable option"
  w_update_callbacks :: "(string \<times> callable) list"
  w_events :: "event list"
  w_menu :: "menu option"
  w_col_row_index :: "int \<times> int \<times> int"
  w_selected :: bool
  w_selection_time :: rat
  w_visible :: bool
  w_rect :: "int \<times> int \<times> int \<times> int"
  w_translate :: "int \<times> int"
  w_padding :: "int \<times> int \<times> int \<times> int"
  w_padding_transform :: "int \<times> int \<times> int \<times> int"
  w_scale :: "bool \<times> number \<times> number \<times> bool"
  w_max_width :: "number option \<times> bool \<times> bool"
  w_max_height :: "number option \<times> bool \<times> bool"
  w_shadow :: bool
  w_shadow_color :: "int list"
  w_shadow_position :: string
  w_shadow_offset :: int
  w_shadow_tuple :: "int \<times> int"
  w_border_color :: "int list"
  w_border_inflate :: "int \<times> int"
  w_border_width :: int
  w_last_render_hash :: int
  w_joystick_enabled :: bool
  w_mouse_enabled :: bool
  w_touchscreen_enabled :: bool
  active :: bool
  is_selectable :: bool
  lock_position :: bool
  readonly :: bool

text \<open>
  What the modules outside the sources provide: Python's \<^verbatim>\<open>hash\<close> on a tuple, the
  validators of \<^verbatim>\<open>pygame_menu.utils\<close>, the position names of
  \<^verbatim>\<open>pygame_menu.locals\<close> (in the order northwest, north, northeast, east, southeast,
  south, southwest, west, center), the key and button of \<^verbatim>\<open>pygame_menu.controls\<close>, and
  the surface pipeline of pygame: \<open>paint\<close> gives the size of the surface that
  \<^verbatim>\<open>_render_string\<close> and \<^verbatim>\<open>_apply_transforms\<close> leave, and the transformed padding.
\<close>

datatype position_name =
    NORTHWEST | NORTH | NORTHEAST | EAST | SOUTHEAST | SOUTH | SOUTHWEST | WEST | CENTER

record env =
  py_hash :: "pyval list \<Rightarrow> int"
  assert_color :: "int list \<Rightarrow> bool"
  assert_position :: "string \<Rightarrow> bool"
  POSITION :: "position_name \<Rightarrow> string"
  KEY_APPLY :: int
  JOY_BUTTON_SELECT :: int
  paint :: "widget \<Rightarrow> (int \<times> int) \<times> (int \<times> int \<times> int \<times> int)"

text \<open>
  The widget that \<^verbatim>\<open>Widget.__init__\<close> builds, for a class name, an id and a title
  (the initial shadow offset \<^verbatim>\<open>2.0\<close> is the integer 2 that \<^verbatim>\<open>set_shadow\<close> would store).
\<close>

definition init_widget :: "env \<Rightarrow> string \<Rightarrow> string \<Rightarrow> string \<Rightarrow> widget" where
  "init_widget E cls ident ttl =
     \<lparr> w_class = cls, w_id = ident, w_title = ttl, w_args = [], w_kwargs = [],
       w_on_change = None, w_on_return = None, w_on_select = None,
       w_update_callbacks = [], w_events = [], w_menu = None,
       w_col_row_index = (-1, -1, -1), w_selected = False, w_selection_time = 0,
       w_visible = True, w_rect = (0, 0, 0, 0), w_translate = (0, 0),
       w_padding = (0, 0, 0, 0), w_padding_transform = (0, 0, 0, 0),
       w_scale = (False, PyInt 1, PyInt 1, False),
       w_max_width = (None, False, True), w_max_height = (None, False, True),
       w_shadow = False, w_shadow_color = [0, 0, 0],
       w_shadow_position = POSITION E NORTHWEST, w_shadow_offset = 2,
       w_shadow_tuple = (0, 0), w_border_color = [0, 0, 0], w_border_inflate = (0, 0),
       w_border_width = 0, w_last_render_hash = 0, w_joystick_enabled = True,
       w_mouse_enabled = True, w_touchscreen_enabled = True, active = False,
       is_selectable = True, lock_position = False, readonly = False \<rparr>"

section \<open>The render cache\<close>

text \<open>
  \<^verbatim>\<open>random.randrange(start, stop)\<close> returns some integer of the half-open range.
  A function that may draw takes the drawn value as an argument.
\<close>

definition randrange :: "int \<Rightarrow> int \<Rightarrow> int set" where
  "randrange start stop = {start..<stop}"

text \<open>
  \<^verbatim>\<open>Widget._hash_variables(*args)\<close>; \<open>draw\<close> is what
  \<^verbatim>\<open>random.randrange(-100000, 100000)\<close> returns when it is called.
\<close>

definition hash_variables :: "env \<Rightarrow> int \<Rightarrow> pyval list \<Rightarrow> int" where
  "hash_variables E draw args =
     (let h = py_hash E args in if h = 0 then draw else h)"

text \<open>\<^verbatim>\<open>Widget._render_hash_changed(*args)\<close>: the answer and the widget afterwards.\<close>

definition render_hash_changed :: "env \<Rightarrow> int \<Rightarrow> widget \<Rightarrow> pyval list \<Rightarrow> bool \<times> widget" where
  "render_hash_changed E draw w args =
     (let h = hash_variables E draw args in
      if h \<noteq> w_last_render_hash w \<or> w_last_render_hash w = 0
      then (True, w\<lparr>w_last_render_hash := h\<rparr>)
      else (False, w))"

text \<open>\<^verbatim>\<open>Widget.force_menu_surface_update\<close>.\<close>

definition force_menu_surface_update :: "widget \<Rightarrow> widget" where
  "force_menu_surface_update w =
     (case w_menu w of
        None \<Rightarrow> w
      | Some m \<Rightarrow> w\<lparr>w_menu := Some (m\<lparr>widgets_surface_need_update := True\<rparr>)\<rparr>)"

text \<open>
  \<^verbatim>\<open>Button._render\<close>: nothing is done when the hash of (selected, title, visible,
  readonly) is the cached one; otherwise the surface is painted, the rect takes its size
  and the Menu is told to update.
\<close>

definition render :: "env \<Rightarrow> int \<Rightarrow> widget \<Rightarrow> widget" where
  "render E draw w =
     (case render_hash_changed E draw w
             [VBool (w_selected w), VStr (w_title w), VBool (w_visible w), VBool (readonly w)] of
        (False, w1) \<Rightarrow> w1
      | (True, w1) \<Rightarrow>
          (case paint E w1 of
             ((sw, sh), pt) \<Rightarrow>
               (case w_rect w1 of
                  (x, y, _, _) \<Rightarrow>
                    force_menu_surface_update
                      (w1\<lparr>w_padding_transform := pt, w_rect := (x, y, sw, sh)\<rparr>))))"

text \<open>\<^verbatim>\<open>Widget._force_render\<close>, which \<^verbatim>\<open>Widget.render\<close> calls.\<close>

definition force_render :: "env \<Rightarrow> int \<Rightarrow> widget \<Rightarrow> widget" where
  "force_render E draw w = render E draw (w\<lparr>w_last_render_hash := 0\<rparr>)"

section \<open>Position\<close>

text \<open>
  \<^verbatim>\<open>Widget.set_position(posx, posy)\<close>. The assignment to \<^verbatim>\<open>_rect.x\<close> is done before
  \<^verbatim>\<open>int(posy)\<close> is evaluated, so a failure of the latter leaves the new x behind: an
  error comes with the widget as the raise leaves it.
\<close>

definition set_position :: "widget \<Rightarrow> number \<Rightarrow> number \<Rightarrow> (error \<times> widget) + widget" where
  "set_position w posx posy =
     (if lock_position w then Inr w
      else case py_int posx of
        Inl e \<Rightarrow> Inl (e, w)
      | Inr ix \<Rightarrow>
          (case w_rect w of
             (x, y, wd, ht) \<Rightarrow>
               (let w1 = w\<lparr>w_rect := (ix + fst (w_translate w), y, wd, ht)\<rparr> in
                case py_int posy of
                  Inl e \<Rightarrow> Inl (e, w1)
                | Inr iy \<Rightarrow> Inr (w1\<lparr>w_rect := (ix + fst (w_translate w), iy + snd (w_translate w), wd, ht)\<rparr>))))"

text \<open>\<^verbatim>\<open>Widget.get_position\<close>.\<close>

definition get_position :: "widget \<Rightarrow> int \<times> int" where
  "get_position w = (case w_rect w of (x, y, _, _) \<Rightarrow> (x, y))"

text \<open>\<^verbatim>\<open>Widget.translate(x, y)\<close>.\<close>

definition translate :: "env \<Rightarrow> int \<Rightarrow> widget \<Rightarrow> number \<Rightarrow> number \<Rightarrow> (error \<times> widget) + widget" where
  "translate E draw w x y =
     (case py_int x of
        Inl e \<Rightarrow> Inl (e, w)
      | Inr ix \<Rightarrow>
          (case py_int y of
             Inl e \<Rightarrow> Inl (e, w)
           | Inr iy \<Rightarrow> Inr (force_render E draw (w\<lparr>w_translate := (ix, iy)\<rparr>))))"

section \<open>Selection time\<close>

text \<open>
  \<^verbatim>\<open>Widget.get_selected_time()\<close>; \<open>now\<close> is what \<^verbatim>\<open>time.time()\<close> returns.
\<close>

definition get_selected_time :: "rat \<Rightarrow> widget \<Rightarrow> rat" where
  "get_selected_time now w =
     (if \<not> w_selected w then 0 else (now - w_selection_time w) * 1000)"

section \<open>Selection\<close>

definition menu_ref :: "widget \<Rightarrow> pyval" where
  "menu_ref w = (case w_menu w of None \<Rightarrow> VNone | Some m \<Rightarrow> VRef (menu_id m))"

text \<open>
  \<^verbatim>\<open>Widget.select(status, update_menu)\<close>; \<open>now\<close> is what \<^verbatim>\<open>time.time()\<close> returns.
  The hooks \<^verbatim>\<open>_focus\<close> and \<^verbatim>\<open>_blur\<close> do nothing in \<^verbatim>\<open>Widget\<close> and \<^verbatim>\<open>Button\<close>.
  The result is the widget and the trace of the calls made; a failed assertion comes
  with both as they are when it is raised.
\<close>

definition select ::
  "env \<Rightarrow> int \<Rightarrow> rat \<Rightarrow> widget \<Rightarrow> bool \<Rightarrow> bool \<Rightarrow>
     (error \<times> widget \<times> effect list) + (widget \<times> effect list)" where
  "select E draw now w status update_menu =
     (if \<not> is_selectable w then Inr (w, [])
      else
        let w1 = w\<lparr>w_selected := status, active := False\<rparr>;
            w2 = (if w_selected w1 then w1\<lparr>w_selection_time := now\<rparr>
                  else w1\<lparr>w_events := []\<rparr>);
            w3 = force_render E draw w2;
            tr = (case w_on_select w3 of
                    None \<Rightarrow> []
                  | Some f \<Rightarrow> [Call f [VBool (w_selected w3), VRef (w_id w3), menu_ref w3] []])
        in if update_menu
           then (case w_menu w3 of
                   None \<Rightarrow> Inl (AssertionError [], w3, tr)
                 | Some m \<Rightarrow> Inr (w3, tr @ [MenuSelectWidget (menu_id m) (w_id w3)]))
           else Inr (w3, tr))"

section \<open>Callbacks\<close>

text \<open>
  \<^verbatim>\<open>Widget.get_value\<close> of the base class, which \<^verbatim>\<open>Button\<close> inherits. A subclass
  with a value overrides it, so \<^verbatim>\<open>apply\<close> and \<^verbatim>\<open>change\<close> take the method of the
  widget's class as an argument.
\<close>

definition get_value :: "widget \<Rightarrow> error + pyval" where
  "get_value w = Inl (ValueError (w_class w @ ''('' @ w_id w @ '') does not accept value''))"

text \<open>
  \<^verbatim>\<open>Widget.apply(*args)\<close> and \<^verbatim>\<open>Widget.change(*args)\<close>. Only a \<^verbatim>\<open>ValueError\<close> of
  \<^verbatim>\<open>get_value\<close> is caught. The callback is opaque: its invocation is recorded, its
  return value is not modelled. (\<open>apply\<close> is a keyword of Isabelle, hence the name \<open>apply_widget\<close>.)
\<close>

definition apply_widget :: "(widget \<Rightarrow> error + pyval) \<Rightarrow> widget \<Rightarrow> pyval list \<Rightarrow> error + effect list" where
  "apply_widget gv w args =
     (if readonly w then Inr []
      else case w_on_return w of
        None \<Rightarrow> Inr []
      | Some f \<Rightarrow>
          (let a = args @ w_args w in
           case gv w of
             Inr v \<Rightarrow> Inr [Call f (v # a) (w_kwargs w)]
           | Inl (ValueError msg) \<Rightarrow> Inr [Call f a (w_kwargs w)]
           | Inl e \<Rightarrow> Inl e))"

definition change :: "(widget \<Rightarrow> error + pyval) \<Rightarrow> widget \<Rightarrow> pyval list \<Rightarrow> error + effect list" where
  "change gv w args =
     (if readonly w then Inr []
      else case w_on_change w of
        None \<Rightarrow> Inr []
      | Some f \<Rightarrow>
          (let a = args @ w_args w in
           case gv w of
             Inr v \<Rightarrow> Inr [Call f (v # a) (w_kwargs w)]
           | Inl (ValueError msg) \<Rightarrow> Inr [Call f a (w_kwargs w)]
           | Inl e \<Rightarrow> Inl e))"


section \<open>Geometry\<close>



section \<open>Button input\<close>




section \<open>Shadow and border\<close>





section \<open>Menu reference and grid position\<close>






section \<open>Scale, maximum width and maximum height\<close>

text \<open>\<^verbatim>\<open>Widget._disable_scale()\<close>; it ends with \<^verbatim>\<open>self.render()\<close>.\<close>

definition disable_scale :: "env \<Rightarrow> int \<Rightarrow> widget \<Rightarrow> widget" where
  "disable_scale E draw w =
     force_render E draw
       (w\<lparr>w_scale := (case w_scale w of (b, x, y, sm) \<Rightarrow> (False, PyInt 1, PyInt 1, sm)),
          w_max_width := (case w_max_width w of (v, sc, sm) \<Rightarrow> (None, sc, sm)),
          w_max_height := (case w_max_height w of (v, sc, sm) \<Rightarrow> (None, sc, sm))\<rparr>)"

text \<open>
  \<^verbatim>\<open>Widget.set_max_width(width, scale_height, smooth)\<close>. \<open>d1\<close> and \<open>d2\<close> are the
  draws of the two renderings. The result on return is the widget and the warnings issued.
\<close>

definition set_max_width ::
  "env \<Rightarrow> int \<Rightarrow> int \<Rightarrow> widget \<Rightarrow> number option \<Rightarrow> bool \<Rightarrow> bool \<Rightarrow>
     (error \<times> widget) + (widget \<times> effect list)" where
  "set_max_width E d1 d2 w width scale_height smooth =
     (let w1 = disable_scale E d1 w in
      case width of
        None \<Rightarrow>
          Inr (force_render E d2
                 (w1\<lparr>w_max_width := (case w_max_width w1 of (v, sc, sm) \<Rightarrow> (None, sc, sm))\<rparr>), [])
      | Some wd \<Rightarrow>
          if \<not> ge_zero wd
          then Inl (AssertionError ''width must be equal or greater than zero'', w1)
          else
            let w2 = w1\<lparr>w_max_width := (Some wd, scale_height, smooth)\<rparr> in
            if fst (w_scale w2)
            then Inr (w2, [Warn ''widget already has a scaling factor applied. Scaling has beendisabled''])
            else if fst (w_max_height w2) \<noteq> None
            then Inr (w2, [Warn ''widget already has a max_height. Widget max height has been disabled''])
            else Inr (force_render E d2 w2, []))"

text \<open>\<^verbatim>\<open>Widget.set_max_height(height, scale_width, smooth)\<close>.\<close>

definition set_max_height ::
  "env \<Rightarrow> int \<Rightarrow> int \<Rightarrow> widget \<Rightarrow> number option \<Rightarrow> bool \<Rightarrow> bool \<Rightarrow>
     (error \<times> widget) + (widget \<times> effect list)" where
  "set_max_height E d1 d2 w height scale_width smooth =
     (let w1 = disable_scale E d1 w in
      case height of
        None \<Rightarrow>
          Inr (force_render E d2
                 (w1\<lparr>w_max_height := (case w_max_height w1 of (v, sc, sm) \<Rightarrow> (None, sc, sm))\<rparr>), [])
      | Some h \<Rightarrow>
          if \<not> gt_zero h
          then Inl (AssertionError ''height must be greater than zero'', w1)
          else
            let w2 = w1\<lparr>w_max_height := (Some h, scale_width, smooth)\<rparr> in
            if fst (w_scale w2)
            then Inr (w2, [Warn ''widget already has a scaling factor applied. Scaling has beendisabled''])
            else if fst (w_max_width w2) \<noteq> None
            then Inr (w2, [Warn ''widget already has a max_width. Widget max width has been disabled''])
            else Inr (force_render E d2 w2, []))"

text \<open>\<^verbatim>\<open>Widget.scale(width, height, smooth)\<close>.\<close>

definition scale ::
  "env \<Rightarrow> int \<Rightarrow> int \<Rightarrow> widget \<Rightarrow> number \<Rightarrow> number \<Rightarrow> bool \<Rightarrow>
     (error \<times> widget) + (widget \<times> effect list)" where
  "scale E d1 d2 w width height smooth =
     (if \<not> (gt_zero width \<and> gt_zero height)
      then Inl (AssertionError ''width and height must be greater than zero'', w)
      else
        let w1 = disable_scale E d1 w in
        if fst (w_max_width w1) \<noteq> None
        then Inr (w1, [Warn (''widget max width is not None. Set widget.set_max_width(None) '' @
                             ''for disabling such feature. This scaling will be ignored'')])
        else if fst (w_max_height w1) \<noteq> None
        then Inr (w1, [Warn (''widget max height is not None. Set widget.set_max_height(None) '' @
                             ''for disabling such feature. This scaling will be ignored'')])
        else
          let w2 = w1\<lparr>w_scale := (True, width, height, smooth)\<rparr>;
              w3 = (if eq_one width \<and> eq_one height
                    then w2\<lparr>w_scale := (case w_scale w2 of (b, x, y, sm) \<Rightarrow> (False, x, y, sm))\<rparr>
                    else w2)
          in Inr (force_render E d2 w3, []))"

text \<open>
  The three transforms as operations, to run a sequence of calls: a call that raises
  leaves the widget as it is at the raise, and the next call goes on from there.
\<close>

datatype transform_call =
    CallScale number number bool
  | CallSetMaxWidth "number option" bool bool
  | CallSetMaxHeight "number option" bool bool

definition after_call :: "(error \<times> widget) + (widget \<times> effect list) \<Rightarrow> widget" where
  "after_call r = (case r of Inl (e, w) \<Rightarrow> w | Inr (w, tr) \<Rightarrow> w)"

definition warnings_of :: "(error \<times> widget) + (widget \<times> effect list) \<Rightarrow> effect list" where
  "warnings_of r = (case r of Inl (e, w) \<Rightarrow> [] | Inr (w, tr) \<Rightarrow> tr)"

definition transform_step ::
  "env \<Rightarrow> int \<Rightarrow> int \<Rightarrow> widget \<Rightarrow> transform_call \<Rightarrow> (error \<times> widget) + (widget \<times> effect list)" where
  "transform_step E d1 d2 w c =
     (case c of
        CallScale x y sm \<Rightarrow> scale E d1 d2 w x y sm
      | CallSetMaxWidth v sc sm \<Rightarrow> set_max_width E d1 d2 w v sc sm
      | CallSetMaxHeight v sc sm \<Rightarrow> set_max_height E d1 d2 w v sc sm)"

text \<open>A sequence of calls, each with the two draws of its renderings.\<close>

fun transform_calls :: "env \<Rightarrow> widget \<Rightarrow> (int \<times> int \<times> transform_call) list \<Rightarrow> widget" where
  "transform_calls E w [] = w"
| "transform_calls E w ((d1, d2, c) # cs) =
     transform_calls E (after_call (transform_step E d1 d2 w c)) cs"

text \<open>How many of scale, maximum width and maximum height are active.\<close>

definition active_transforms :: "widget \<Rightarrow> nat" where
  "active_transforms w =
     (if fst (w_scale w) then 1 else 0) +
     (if fst (w_max_width w) \<noteq> None then 1 else 0) +
     (if fst (w_max_height w) \<noteq> None then 1 else 0)"

section \<open>A sample environment\<close>

text \<open>
  Concrete collaborators on which the definitions can be evaluated: a hash that adds up
  the hashed values (as Python does for small integers and booleans), colors of three
  or four channels in 0..255, nine position names, key 13 and joystick button 0, and a
  painter whose surface is ten pixels wide per character of the title and twenty high.
\<close>

fun sample_code :: "pyval \<Rightarrow> int" where
  "sample_code VNone = 7"
| "sample_code (VBool b) = (if b then 1 else 0)"
| "sample_code (VInt i) = i"
| "sample_code (VStr s) = int (length s)"
| "sample_code (VRef s) = int (length s) + 11"

fun sample_position :: "position_name \<Rightarrow> string" where
  "sample_position NORTHWEST = ''position-northwest''"
| "sample_position NORTH = ''position-north''"
| "sample_position NORTHEAST = ''position-northeast''"
| "sample_position EAST = ''position-east''"
| "sample_position SOUTHEAST = ''position-southeast''"
| "sample_position SOUTH = ''position-south''"
| "sample_position SOUTHWEST = ''position-southwest''"
| "sample_position WEST = ''position-west''"
| "sample_position CENTER = ''position-center''"

definition sample_env :: env where
  "sample_env =
     \<lparr> py_hash = (\<lambda>args. sum_list (map sample_code args)),
       assert_color = (\<lambda>c. (length c = 3 \<or> length c = 4) \<and> list_all (\<lambda>v. 0 \<le> v \<and> v \<le> 255) c),
       assert_position = (\<lambda>p. p \<in> set (map sample_position
          [NORTHWEST, NORTH, NORTHEAST, EAST, SOUTHEAST, SOUTH, SOUTHWEST, WEST, CENTER])),
       POSITION = sample_position,
       KEY_APPLY = 13,
       JOY_BUTTON_SELECT = 0,
       paint = (\<lambda>w. ((10 * int (length (w_title w)), 20), w_padding w)) \<rparr>"


definition sample_button :: widget where
  "sample_button = init_widget sample_env ''Button'' ''b1'' ''Play''"


definition after_select :: "(error \<times> widget \<times> effect list) + (widget \<times> effect list) \<Rightarrow> widget" where
  "after_select r = (case r of Inl (e, w, tr) \<Rightarrow> w | Inr (w, tr) \<Rightarrow> w)"


text \<open>A button with callbacks and stored arguments, and a selected button with an on-select callback.\<close>

definition sample_listener :: widget where
  "sample_listener =
     sample_button\<lparr>w_args := [VInt 1], w_kwargs := [(''k'', VStr ''x'')],
                   w_on_change := Some (Callable ''changed''),
                   w_on_return := Some (Callable ''go'')\<rparr>"

definition sample_selected :: widget where
  "sample_selected = sample_button\<lparr>w_selected := True, w_on_select := Some (Callable ''picked'')\<rparr>"


definition sample_scaled :: widget where
  "sample_scaled = after_call (scale sample_env 1 1 sample_button (PyInt 2) (PyInt 2) True)"

section \<open>The events that fire a button\<close>





section \<open>What rendering leaves alone\<close>

text \<open>
  Rendering writes the cached hash, the rect, the transformed padding and the dirty flag of
  the Menu; every other attribute is as before.
\<close>

lemma fmsu_frame [simp]:
  "w_menu (force_menu_surface_update w) = None \<longleftrightarrow> w_menu w = None"
  "map_option menu_id (w_menu (force_menu_surface_update w)) = map_option menu_id (w_menu w)"
  "map_option window_size (w_menu (force_menu_surface_update w)) = map_option window_size (w_menu w)"
  by (simp_all add: force_menu_surface_update_def split: option.splits)

lemma render_alt:
  "render E d w =
     (let h = hash_variables E d [VBool (w_selected w), VStr (w_title w), VBool (w_visible w), VBool (readonly w)];
          w1 = w\<lparr>w_last_render_hash := h\<rparr>
      in if h \<noteq> w_last_render_hash w \<or> w_last_render_hash w = 0
         then force_menu_surface_update
                (w1\<lparr>w_padding_transform := snd (paint E w1),
                    w_rect := (fst (w_rect w), fst (snd (w_rect w)), fst (fst (paint E w1)), snd (fst (paint E w1)))\<rparr>)
         else w)"
  by (simp add: render_def render_hash_changed_def Let_def split: prod.splits)

lemma render_frame [simp]:
  "w_class (render E d w) = w_class w"
  "w_id (render E d w) = w_id w"
  "w_title (render E d w) = w_title w"
  "w_args (render E d w) = w_args w"
  "w_kwargs (render E d w) = w_kwargs w"
  "w_on_change (render E d w) = w_on_change w"
  "w_on_return (render E d w) = w_on_return w"
  "w_on_select (render E d w) = w_on_select w"
  "w_update_callbacks (render E d w) = w_update_callbacks w"
  "w_events (render E d w) = w_events w"
  "w_col_row_index (render E d w) = w_col_row_index w"
  "w_selected (render E d w) = w_selected w"
  "w_selection_time (render E d w) = w_selection_time w"
  "w_visible (render E d w) = w_visible w"
  "w_translate (render E d w) = w_translate w"
  "w_padding (render E d w) = w_padding w"
  "w_scale (render E d w) = w_scale w"
  "w_max_width (render E d w) = w_max_width w"
  "w_max_height (render E d w) = w_max_height w"
  "w_joystick_enabled (render E d w) = w_joystick_enabled w"
  "w_mouse_enabled (render E d w) = w_mouse_enabled w"
  "w_touchscreen_enabled (render E d w) = w_touchscreen_enabled w"
  "active (render E d w) = active w"
  "is_selectable (render E d w) = is_selectable w"
  "lock_position (render E d w) = lock_position w"
  "readonly (render E d w) = readonly w"
  by (simp_all add: render_alt Let_def force_menu_surface_update_def split: option.splits)

lemma render_menu [simp]:
  "w_menu (render E d w) = None \<longleftrightarrow> w_menu w = None"
  "map_option menu_id (w_menu (render E d w)) = map_option menu_id (w_menu w)"
  "map_option window_size (w_menu (render E d w)) = map_option window_size (w_menu w)"
  by (simp_all add: render_alt Let_def force_menu_surface_update_def split: option.splits)

lemma menu_ref_render [simp]: "menu_ref (render E d w) = menu_ref w"
  by (simp add: menu_ref_def render_alt Let_def force_menu_surface_update_def split: option.splits)

lemma force_render_frame [simp]:
  "w_id (force_render E d w) = w_id w"
  "w_on_select (force_render E d w) = w_on_select w"
  "w_events (force_render E d w) = w_events w"
  "w_selected (force_render E d w) = w_selected w"
  "w_selection_time (force_render E d w) = w_selection_time w"
  "w_scale (force_render E d w) = w_scale w"
  "w_max_width (force_render E d w) = w_max_width w"
  "w_max_height (force_render E d w) = w_max_height w"
  "w_translate (force_render E d w) = w_translate w"
  "active (force_render E d w) = active w"
  "is_selectable (force_render E d w) = is_selectable w"
  "w_col_row_index (force_render E d w) = w_col_row_index w"
  by (simp_all add: force_render_def)

lemma menu_ref_hash [simp]: "menu_ref (w\<lparr>w_last_render_hash := h\<rparr>) = menu_ref w"
  by (simp add: menu_ref_def)

lemma menu_ref_force_render [simp]: "menu_ref (force_render E d w) = menu_ref w"
  by (simp add: force_render_def)

lemma menu_ref_select [simp]:
  "menu_ref (w\<lparr>w_selected := s, active := a, w_selection_time := t\<rparr>) = menu_ref w"
  "menu_ref (w\<lparr>w_selected := s, active := a, w_events := es\<rparr>) = menu_ref w"
  by (simp_all add: menu_ref_def)

section \<open>The render cache hash (C1)\<close>

text \<open>
  A nonzero hash is returned as it is, and a widget whose cached hash is zero always
  reports a change.
\<close>

lemma hash_variables_nonzero_hash: "py_hash E args \<noteq> 0 \<Longrightarrow> hash_variables E d args = py_hash E args"
  by (simp add: hash_variables_def)

lemma first_render_reports_change:
  "w_last_render_hash w = 0 \<Longrightarrow> fst (render_hash_changed E d w args)"
  by (simp add: render_hash_changed_def Let_def)

text \<open>
  C1 states that the hash computed by \<^verbatim>\<open>_hash_variables\<close> is never zero, a raw hash of
  zero being remapped to a random nonzero value. The remapping draws from
  \<^verbatim>\<open>random.randrange(-100000, 100000)\<close>, a range that contains zero: when the raw hash
  is zero and the draw is zero, the hash returned is zero, and after
  \<^verbatim>\<open>_render_hash_changed\<close> the cached hash is zero although the widget has rendered.
\<close>

theorem hash_variables_zero:
  "py_hash E args = 0 \<Longrightarrow>
     0 \<in> randrange (-100000) 100000 \<and> hash_variables E 0 args = 0 \<and>
     render_hash_changed E 0 w args = (True, w\<lparr>w_last_render_hash := 0\<rparr>)"
  by (simp add: hash_variables_def randrange_def render_hash_changed_def)

theorem hash_variables_zero_witness:
  "py_hash sample_env [VInt 0] = 0 \<and> 0 \<in> randrange (-100000) 100000 \<and>
   hash_variables sample_env 0 [VInt 0] = 0 \<and>
   render_hash_changed sample_env 0 sample_button [VInt 0] = (True, sample_button\<lparr>w_last_render_hash := 0\<rparr>)"
proof -
  have h: "py_hash sample_env [VInt 0] = 0" by (simp add: sample_env_def)
  show ?thesis using h hash_variables_zero [OF h, of sample_button] by simp
qed

section \<open>Selection time of an unselected widget (C9)\<close>

text \<open>
  C9: for every widget that is not currently selected, \<^verbatim>\<open>get_selected_time()\<close>
  returns exactly 0, whether or not the widget was selected earlier: in particular
  after it has been selected and then unselected.
\<close>

theorem get_selected_time_unselected:
  "(\<not> w_selected w \<longrightarrow> get_selected_time now w = 0) \<and>
   (is_selectable w \<longrightarrow>
      get_selected_time now
        (after_select (select E d2 t2 (after_select (select E d1 t1 w True False)) False False)) = 0)"
  by (simp add: get_selected_time_def select_def after_select_def Let_def)

theorem get_selected_time_unselected_witness:
  "\<not> w_selected sample_button \<and> get_selected_time 9 sample_button = 0 \<and>
   is_selectable sample_button \<and>
   w_selected (after_select (select sample_env 1 3 sample_button True False)) \<and>
   get_selected_time 9 (after_select (select sample_env 1 3 sample_button True False)) = 6000 \<and>
   get_selected_time 9
     (after_select (select sample_env 1 5 (after_select (select sample_env 1 3 sample_button True False)) False False)) = 0"
proof -
  have a: "\<not> w_selected sample_button" "is_selectable sample_button"
    by (simp_all add: sample_button_def init_widget_def)
  have b: "w_selected (after_select (select sample_env 1 3 sample_button True False))"
    using a by (simp add: select_def after_select_def Let_def)
  have c: "get_selected_time 9 (after_select (select sample_env 1 3 sample_button True False)) = 6000"
    using a by (simp add: select_def after_select_def Let_def get_selected_time_def)
  show ?thesis
    using a b c get_selected_time_unselected [of sample_button 9 sample_env 1 5 1 3] by simp
qed

section \<open>Setting the position (C10)\<close>

text \<open>
  C10: with \<^verbatim>\<open>lock_position\<close> set, \<^verbatim>\<open>set_position(x, y)\<close> leaves the widget as it
  is; otherwise it sets the position of the rect to \<open>(int(x) + tx, int(y) + ty)\<close>, where
  \<open>(tx, ty)\<close> is the stored translation, and changes no other field (the size of the
  rect included).
\<close>

theorem set_position_effect:
  "(lock_position w \<longrightarrow> set_position w posx posy = Inr w) \<and>
   (\<not> lock_position w \<and> py_int posx = Inr ix \<and> py_int posy = Inr iy \<longrightarrow>
      set_position w posx posy =
        Inr (w\<lparr>w_rect := (ix + fst (w_translate w), iy + snd (w_translate w),
                          fst (snd (snd (w_rect w))), snd (snd (snd (w_rect w))))\<rparr>))"
  by (cases "w_rect w") (simp add: set_position_def)

theorem set_position_effect_witness:
  "lock_position (sample_button\<lparr>lock_position := True\<rparr>) \<and>
   set_position (sample_button\<lparr>lock_position := True\<rparr>) (PyInt 7) (PyFloat (5 / 2)) =
     Inr (sample_button\<lparr>lock_position := True\<rparr>) \<and>
   \<not> lock_position (sample_button\<lparr>w_translate := (3, 4)\<rparr>) \<and>
   py_int (PyInt 7) = Inr 7 \<and> py_int (PyFloat (- 5 / 2)) = Inr (- 2) \<and>
   set_position (sample_button\<lparr>w_translate := (3, 4)\<rparr>) (PyInt 7) (PyFloat (- 5 / 2)) =
     Inr (sample_button\<lparr>w_translate := (3, 4), w_rect := (10, 2, 0, 0)\<rparr>)"
proof -
  have a: "lock_position (sample_button\<lparr>lock_position := True\<rparr>)" by simp
  have b: "\<not> lock_position (sample_button\<lparr>w_translate := (3, 4)\<rparr>)"
    by (simp add: sample_button_def init_widget_def)
  have "\<lceil>- (5 / 2) :: rat\<rceil> = - 2"
    by (rule ceiling_unique) simp_all
  then have c: "py_int (PyInt 7) = Inr 7" "py_int (PyFloat (- 5 / 2)) = Inr (- 2)"
    by (simp_all add: trunc_def)
  have r: "w_rect sample_button = (0, 0, 0, 0)" "w_translate (sample_button\<lparr>w_translate := (3, 4)\<rparr>) = (3, 4)"
    by (simp_all add: sample_button_def init_widget_def)
  show ?thesis
    using a b c r
      set_position_effect [of "sample_button\<lparr>lock_position := True\<rparr>" "PyInt 7" "PyFloat (5 / 2)" 0 0]
      set_position_effect [of "sample_button\<lparr>w_translate := (3, 4)\<rparr>" "PyInt 7" "PyFloat (- 5 / 2)" 7 "- 2"]
    by simp
qed

section \<open>The callback contract of apply and change (C3)\<close>

text \<open>
  C3: \<^verbatim>\<open>apply()\<close> (resp. \<^verbatim>\<open>change()\<close>) invokes the on-return (resp. on-change)
  callback with the value, the arguments of the call, the stored arguments and the
  stored keyword arguments; the value is left out when \<^verbatim>\<open>get_value()\<close> raises a
  \<^verbatim>\<open>ValueError\<close>, as the \<^verbatim>\<open>get_value\<close> of a widget without a value does, with the
  class name and the id of the widget in the message. A readonly widget invokes no
  callback.
\<close>

theorem callback_contract:
  "(readonly w \<longrightarrow> apply_widget gv w xs = Inr [] \<and> change gv w xs = Inr []) \<and>
   (\<not> readonly w \<and> w_on_return w = Some f \<longrightarrow>
      (\<forall>v. gv w = Inr v \<longrightarrow>
         apply_widget gv w xs = Inr [Call f (v # xs @ w_args w) (w_kwargs w)]) \<and>
      (\<forall>msg. gv w = Inl (ValueError msg) \<longrightarrow>
         apply_widget gv w xs = Inr [Call f (xs @ w_args w) (w_kwargs w)])) \<and>
   (\<not> readonly w \<and> w_on_change w = Some g \<longrightarrow>
      (\<forall>v. gv w = Inr v \<longrightarrow>
         change gv w xs = Inr [Call g (v # xs @ w_args w) (w_kwargs w)]) \<and>
      (\<forall>msg. gv w = Inl (ValueError msg) \<longrightarrow>
         change gv w xs = Inr [Call g (xs @ w_args w) (w_kwargs w)])) \<and>
   get_value w = Inl (ValueError (w_class w @ ''('' @ w_id w @ '') does not accept value''))"
  by (simp add: apply_widget_def change_def get_value_def)

theorem callback_contract_witness:
  "readonly (sample_listener\<lparr>readonly := True\<rparr>) \<and>
   apply_widget get_value (sample_listener\<lparr>readonly := True\<rparr>) [VInt 5] = Inr [] \<and>
   change get_value (sample_listener\<lparr>readonly := True\<rparr>) [VInt 5] = Inr [] \<and>
   \<not> readonly sample_listener \<and>
   w_on_return sample_listener = Some (Callable ''go'') \<and>
   w_on_change sample_listener = Some (Callable ''changed'') \<and>
   get_value sample_listener = Inl (ValueError ''Button(b1) does not accept value'') \<and>
   apply_widget get_value sample_listener [VInt 5] =
     Inr [Call (Callable ''go'') [VInt 5, VInt 1] [(''k'', VStr ''x'')]] \<and>
   change get_value sample_listener [VInt 5] =
     Inr [Call (Callable ''changed'') [VInt 5, VInt 1] [(''k'', VStr ''x'')]] \<and>
   apply_widget (\<lambda>w. Inr (VStr (w_title w))) sample_listener [VInt 5] =
     Inr [Call (Callable ''go'') [VStr ''Play'', VInt 5, VInt 1] [(''k'', VStr ''x'')]] \<and>
   change (\<lambda>w. Inr (VStr (w_title w))) sample_listener [VInt 5] =
     Inr [Call (Callable ''changed'') [VStr ''Play'', VInt 5, VInt 1] [(''k'', VStr ''x'')]]"
proof -
  have f: "\<not> readonly sample_listener" "w_on_return sample_listener = Some (Callable ''go'')"
    "w_on_change sample_listener = Some (Callable ''changed'')"
    "w_args sample_listener = [VInt 1]" "w_kwargs sample_listener = [(''k'', VStr ''x'')]"
    "w_class sample_listener = ''Button''" "w_id sample_listener = ''b1''"
    "w_title sample_listener = ''Play''"
    by (simp_all add: sample_listener_def sample_button_def init_widget_def)
  have r: "readonly (sample_listener\<lparr>readonly := True\<rparr>)" by simp
  note a = callback_contract [of "sample_listener\<lparr>readonly := True\<rparr>" get_value "[VInt 5]"
      "Callable ''go''" "Callable ''changed''"]
  note b = callback_contract [of sample_listener get_value "[VInt 5]"
      "Callable ''go''" "Callable ''changed''"]
  note c = callback_contract [of sample_listener "\<lambda>w. Inr (VStr (w_title w))" "[VInt 5]"
      "Callable ''go''" "Callable ''changed''"]
  show ?thesis using f r a b c by simp
qed

section \<open>Unselectable widgets and the events of an unselected widget (C7)\<close>

text \<open>
  C7: a widget that is not selectable ignores \<^verbatim>\<open>select(status)\<close>: nothing changes
  and no callback is invoked. A selectable widget that is unselected has no buffered
  event left, whether the call returns or fails on its last assertion.
\<close>

theorem select_unselectable_and_blur:
  "(\<not> is_selectable w \<longrightarrow> select E d now w status update_menu = Inr (w, [])) \<and>
   (is_selectable w \<longrightarrow> w_events (after_select (select E d now w False update_menu)) = [])"
  by (simp add: select_def after_select_def Let_def split: option.splits)

theorem select_unselectable_and_blur_witness:
  "\<not> is_selectable (sample_selected\<lparr>is_selectable := False\<rparr>) \<and>
   select sample_env 1 8 (sample_selected\<lparr>is_selectable := False\<rparr>) False True =
     Inr (sample_selected\<lparr>is_selectable := False\<rparr>, []) \<and>
   is_selectable (sample_selected\<lparr>w_events := [KEYDOWN 13, OtherEvent 2]\<rparr>) \<and>
   w_events (after_select
     (select sample_env 1 8 (sample_selected\<lparr>w_events := [KEYDOWN 13, OtherEvent 2]\<rparr>) False True)) = []"
proof -
  have a: "\<not> is_selectable (sample_selected\<lparr>is_selectable := False\<rparr>)" by simp
  have b: "is_selectable (sample_selected\<lparr>w_events := [KEYDOWN 13, OtherEvent 2]\<rparr>)"
    by (simp add: sample_selected_def sample_button_def init_widget_def)
  show ?thesis
    using a b
      select_unselectable_and_blur [of "sample_selected\<lparr>is_selectable := False\<rparr>" sample_env 1 8 False True]
      select_unselectable_and_blur [of "sample_selected\<lparr>w_events := [KEYDOWN 13, OtherEvent 2]\<rparr>" sample_env 1 8 False True]
    by simp
qed

section \<open>Selecting a widget that is already selected (C5)\<close>




section \<open>The column, row and index of a widget (C8)\<close>




section \<open>Scale, maximum width and maximum height exclude each other (C6)\<close>

text \<open>
  Each of \<^verbatim>\<open>scale\<close>, \<^verbatim>\<open>set_max_width\<close> and \<^verbatim>\<open>set_max_height\<close> starts with
  \<^verbatim>\<open>_disable_scale()\<close>, after which none of the three transforms is active; so after a
  call at most one is, and this holds along any sequence of calls from a widget where it
  holds, the widget of \<^verbatim>\<open>__init__\<close> among them. For the same reason the tests that
  guard the warnings are never true: no call issues a warning.
\<close>

lemma disable_scale_inactive: "active_transforms (disable_scale E d w) = 0"
  by (simp add: active_transforms_def disable_scale_def split: prod.splits)

lemma disable_scale_fields:
  "fst (w_scale (disable_scale E d w)) = False"
  "fst (w_max_width (disable_scale E d w)) = None"
  "fst (w_max_height (disable_scale E d w)) = None"
  by (simp_all add: disable_scale_def split: prod.splits)

lemma no_warning_is_issued: "warnings_of (transform_step E d1 d2 w c) = []"
  by (cases c)
     (simp_all add: warnings_of_def transform_step_def scale_def set_max_width_def
        set_max_height_def Let_def disable_scale_fields split: option.splits)

lemma scale_at_most_one:
  assumes "active_transforms w \<le> 1"
  shows "active_transforms (after_call (scale E d1 d2 w x y sm)) \<le> 1"
proof (cases "gt_zero x \<and> gt_zero y")
  case False
  then have "after_call (scale E d1 d2 w x y sm) = w"
    by (simp add: scale_def after_call_def)
  with assms show ?thesis by simp
next
  case True
  then show ?thesis
    by (simp add: scale_def after_call_def Let_def disable_scale_fields active_transforms_def)
qed

lemma set_max_width_at_most_one:
  "active_transforms (after_call (set_max_width E d1 d2 w v sc sm)) \<le> 1"
  by (simp add: set_max_width_def after_call_def Let_def disable_scale_fields
        active_transforms_def split: option.splits prod.splits)

lemma set_max_height_at_most_one:
  "active_transforms (after_call (set_max_height E d1 d2 w v sc sm)) \<le> 1"
  by (simp add: set_max_height_def after_call_def Let_def disable_scale_fields
        active_transforms_def split: option.splits prod.splits)

lemma transform_step_at_most_one:
  "active_transforms w \<le> 1 \<Longrightarrow> active_transforms (after_call (transform_step E d1 d2 w c)) \<le> 1"
  by (cases c)
     (simp_all add: transform_step_def scale_at_most_one set_max_width_at_most_one
        set_max_height_at_most_one del: One_nat_def)

lemma transform_calls_at_most_one:
  "active_transforms w \<le> 1 \<Longrightarrow> active_transforms (transform_calls E w cs) \<le> 1"
proof (induction cs arbitrary: w)
  case Nil
  then show ?case by simp
next
  case (Cons c cs)
  obtain d1 d2 k where c: "c = (d1, d2, k)" by (cases c) auto
  show ?case unfolding c transform_calls.simps
    by (rule Cons.IH) (rule transform_step_at_most_one [OF Cons.prems])
qed

lemma init_widget_no_transform: "active_transforms (init_widget E cls ident ttl) = 0"
  by (simp add: active_transforms_def init_widget_def)

text \<open>
  C6 states that setting one transform while another is active disables the other with
  a warning. On a button with an active scale factor, \<^verbatim>\<open>set_max_width(100)\<close> disables
  the scale and sets the maximum width, and a following \<^verbatim>\<open>scale(3, 3)\<close> disables the
  maximum width and sets the scale; neither call issues a warning.
\<close>

theorem set_max_width_on_scaled_widget:
  "fst (w_scale sample_scaled) \<and>
   warnings_of (set_max_width sample_env 1 1 sample_scaled (Some (PyInt 100)) False True) = [] \<and>
   \<not> fst (w_scale (after_call (set_max_width sample_env 1 1 sample_scaled (Some (PyInt 100)) False True))) \<and>
   fst (w_max_width (after_call (set_max_width sample_env 1 1 sample_scaled (Some (PyInt 100)) False True)))
     = Some (PyInt 100) \<and>
   warnings_of (scale sample_env 1 1
     (after_call (set_max_width sample_env 1 1 sample_scaled (Some (PyInt 100)) False True))
     (PyInt 3) (PyInt 3) True) = [] \<and>
   w_scale (after_call (scale sample_env 1 1
     (after_call (set_max_width sample_env 1 1 sample_scaled (Some (PyInt 100)) False True))
     (PyInt 3) (PyInt 3) True)) = (True, PyInt 3, PyInt 3, True)"
proof -
  have s: "fst (w_scale sample_scaled)"
    by (simp add: sample_scaled_def after_call_def scale_def Let_def disable_scale_fields)
  show ?thesis
    using s
    by (simp add: warnings_of_def after_call_def set_max_width_def scale_def Let_def disable_scale_fields)
qed

section \<open>Validation and mutation (C2)\<close>











section \<open>The input of a button (C4)\<close>














end
